theory Spec2Isabelle
  imports Complex_Main "HOL-Library.Sublist"
begin

section \<open>Python strings\<close>

text \<open>
  A Python \<open>str\<close> is modelled as a \<open>string\<close> whose characters are ASCII code points.
  Characters above 127 are treated as caseless, non-blank and non-alphabetic; the
  Unicode-only behaviour of \<open>str.lower\<close>, \<open>str.strip\<close> and \<open>\s\<close> is outside the model.
\<close>

definition ascii_upper :: string where
  "ascii_upper = ''ABCDEFGHIJKLMNOPQRSTUVWXYZ''"

definition ascii_lower :: string where
  "ascii_lower = ''abcdefghijklmnopqrstuvwxyz''"

definition digits :: string where
  "digits = ''0123456789''"


definition is_alpha :: "char \<Rightarrow> bool" where
  "is_alpha c = (c \<in> set (ascii_lower @ ascii_upper))"

definition is_digit :: "char \<Rightarrow> bool" where
  "is_digit c = (c \<in> set digits)"

text \<open>\<open>str.isspace\<close> on ASCII: TAB, LF, VT, FF, CR, the separators 0x1C..0x1F and the blank.\<close>

definition is_space :: "char \<Rightarrow> bool" where
  "is_space c = (c \<in> set [CHR 0x09, CHR 0x0A, CHR 0x0B, CHR 0x0C, CHR 0x0D,
                            CHR 0x1C, CHR 0x1D, CHR 0x1E, CHR 0x1F, CHR 0x20])"

definition lower_char :: "char \<Rightarrow> char" where
  "lower_char c = (case map_of (zip ascii_upper ascii_lower) c of Some d \<Rightarrow> d | None \<Rightarrow> c)"

definition py_lower :: "string \<Rightarrow> string" where
  "py_lower s = map lower_char s"

definition py_lstrip :: "string \<Rightarrow> string" where
  "py_lstrip s = dropWhile is_space s"

definition py_rstrip :: "string \<Rightarrow> string" where
  "py_rstrip s = rev (dropWhile is_space (rev s))"

definition py_strip :: "string \<Rightarrow> string" where
  "py_strip s = py_rstrip (py_lstrip s)"

definition startswith :: "string \<Rightarrow> string \<Rightarrow> bool" where
  "startswith s p = (take (length p) s = p)"

text \<open>\<open>sub in s\<close> for strings: \<open>sub\<close> occurs as a contiguous block of \<open>s\<close>.\<close>

fun py_in :: "string \<Rightarrow> string \<Rightarrow> bool" where
  "py_in sub [] = (sub = [])"
| "py_in sub (c # cs) = (startswith (c # cs) sub \<or> py_in sub cs)"

text \<open>\<open>s.split(sep)\<close> for a one-character separator: never returns the empty list.\<close>

fun py_split :: "char \<Rightarrow> string \<Rightarrow> string list" where
  "py_split sep [] = [[]]"
| "py_split sep (c # cs) =
     (case py_split sep cs of
        [] \<Rightarrow> [[c]]
      | w # ws \<Rightarrow> if c = sep then [] # w # ws else (c # w) # ws)"

text \<open>\<open>sep.join(parts)\<close> for a one-character separator.\<close>

fun py_join :: "char \<Rightarrow> string list \<Rightarrow> string" where
  "py_join sep [] = []"
| "py_join sep [w] = w"
| "py_join sep (w # v # ws) = w @ sep # py_join sep (v # ws)"

text \<open>\<open>s.partition(sep)\<close>: the part before the first \<open>sep\<close> and the part after it
  (empty when \<open>sep\<close> does not occur).\<close>

definition before_first :: "char \<Rightarrow> string \<Rightarrow> string" where
  "before_first sep s = takeWhile (\<lambda>c. c \<noteq> sep) s"

definition after_first :: "char \<Rightarrow> string \<Rightarrow> string" where
  "after_first sep s = drop 1 (dropWhile (\<lambda>c. c \<noteq> sep) s)"

section \<open>Errors\<close>

text \<open>The exceptions that the modelled code can raise; each carries its message.\<close>

datatype py_error =
    ValueError string
  | ZeroDivisionError string
  | WebDriverException string

fun str_of_error :: "py_error \<Rightarrow> string" where
  "str_of_error (ValueError m) = m"
| "str_of_error (ZeroDivisionError m) = m"
| "str_of_error (WebDriverException m) = m"

section \<open>The \<open>urllib.parse\<close> functions used by the scraper (CPython 3.11)\<close>

definition uses_relative :: "string list" where
  "uses_relative = ['''', ''ftp'', ''http'', ''gopher'', ''nntp'', ''imap'',
                    ''wais'', ''file'', ''https'', ''shttp'', ''mms'',
                    ''prospero'', ''rtsp'', ''rtsps'', ''rtspu'', ''sftp'',
                    ''svn'', ''svn+ssh'', ''ws'', ''wss'']"

definition uses_netloc :: "string list" where
  "uses_netloc = ['''', ''ftp'', ''http'', ''gopher'', ''nntp'', ''telnet'',
                  ''imap'', ''wais'', ''file'', ''mms'', ''https'', ''shttp'',
                  ''snews'', ''prospero'', ''rtsp'', ''rtsps'', ''rtspu'', ''rsync'',
                  ''svn'', ''svn+ssh'', ''sftp'', ''nfs'', ''git'', ''git+ssh'',
                  ''ws'', ''wss'']"

definition uses_params :: "string list" where
  "uses_params = ['''', ''ftp'', ''hdl'', ''prospero'', ''http'', ''imap'',
                  ''https'', ''shttp'', ''rtsp'', ''rtsps'', ''rtspu'', ''sip'',
                  ''sips'', ''mms'', ''sftp'', ''tel'']"

definition scheme_chars :: string where
  "scheme_chars = ascii_lower @ ascii_upper @ digits @ ''+-.''"

text \<open>\<open>_WHATWG_C0_CONTROL_OR_SPACE\<close>: the code points 0x00..0x20.\<close>

definition c0_control_or_space :: "char \<Rightarrow> bool" where
  "c0_control_or_space c = ((of_char c :: nat) \<le> 32)"

text \<open>\<open>_UNSAFE_URL_BYTES_TO_REMOVE\<close>: TAB, CR, LF.\<close>

definition unsafe_url_byte :: "char \<Rightarrow> bool" where
  "unsafe_url_byte c = (c \<in> set [CHR 0x09, CHR 0x0D, CHR 0x0A])"

record split_result =
  scheme :: string
  netloc :: string
  path :: string
  query :: string
  fragment :: string

text \<open>\<open>_splitnetloc(url, 2)\<close>, for a \<open>url\<close> that starts with two slashes: the domain runs up
  to the first of \<open>/\<close>, \<open>?\<close>, \<open>#\<close>.\<close>

definition netloc_delim :: "char \<Rightarrow> bool" where
  "netloc_delim c = (c \<in> set ''/?#'')"

definition splitnetloc :: "string \<Rightarrow> string \<times> string" where
  "splitnetloc url =
     (takeWhile (\<lambda>c. \<not> netloc_delim c) (drop 2 url),
      dropWhile (\<lambda>c. \<not> netloc_delim c) (drop 2 url))"

text \<open>
  \<open>urlsplit(url, scheme)\<close>. A netloc with an unmatched bracket raises \<open>ValueError\<close>; a
  netloc with both brackets is checked by \<open>_check_bracketed_host\<close>, which relies on the
  \<open>ipaddress\<close> module: that check is the parameter \<open>chk\<close> (\<open>True\<close> when the host is
  accepted). \<open>_checknetloc\<close> only looks at non-ASCII netlocs and is omitted.
\<close>

definition urlsplit :: "(string \<Rightarrow> bool) \<Rightarrow> string \<Rightarrow> string \<Rightarrow> py_error + split_result" where
  "urlsplit chk url0 scheme0 =
    (let url1 = filter (\<lambda>c. \<not> unsafe_url_byte c) (dropWhile c0_control_or_space url0);
         scheme1 = filter (\<lambda>c. \<not> unsafe_url_byte c)
                     (rev (dropWhile c0_control_or_space
                        (rev (dropWhile c0_control_or_space scheme0))));
         pre = before_first (CHR '':'') url1;
         has_scheme = (CHR '':'' \<in> set url1 \<and> pre \<noteq> [] \<and> is_alpha (hd url1)
                        \<and> list_all (\<lambda>c. c \<in> set scheme_chars) pre);
         scheme2 = (if has_scheme then py_lower pre else scheme1);
         url2 = (if has_scheme then after_first (CHR '':'') url1 else url1);
         has_netloc = (take 2 url2 = ''//'');
         nl = (if has_netloc then fst (splitnetloc url2) else []);
         url3 = (if has_netloc then snd (splitnetloc url2) else url2);
         lb = (CHR ''['' \<in> set nl);
         rb = (CHR '']'' \<in> set nl)
     in if has_netloc \<and> ((lb \<and> \<not> rb) \<or> (rb \<and> \<not> lb)) then Inl (ValueError ''Invalid IPv6 URL'')
        else if has_netloc \<and> lb \<and> rb
                \<and> \<not> chk (before_first (CHR '']'') (after_first (CHR ''['') nl))
        then Inl (ValueError ''invalid bracketed host'')
        else
          (let frag = after_first (CHR ''#'') url3;
               url4 = before_first (CHR ''#'') url3;
               qry = after_first (CHR ''?'') url4;
               url5 = before_first (CHR ''?'') url4
           in Inr \<lparr>scheme = scheme2, netloc = nl, path = url5, query = qry, fragment = frag\<rparr>))"

text \<open>\<open>_splitparams(url)\<close>, called only when \<open>url\<close> contains a semicolon: the parameters start
  at the first semicolon of the last path segment.\<close>

definition splitparams :: "string \<Rightarrow> string \<times> string" where
  "splitparams url =
     (if CHR ''/'' \<in> set url then
        (let seg = rev (takeWhile (\<lambda>c. c \<noteq> CHR ''/'') (rev url));
             front = take (length url - length seg) url
         in if CHR '';'' \<in> set seg
            then (front @ before_first (CHR '';'') seg, after_first (CHR '';'') seg)
            else (url, []))
      else (before_first (CHR '';'') url, after_first (CHR '';'') url))"

text \<open>\<open>urlparse(url, scheme)\<close>: the split result and the parameters of the path.\<close>

definition urlparse :: "(string \<Rightarrow> bool) \<Rightarrow> string \<Rightarrow> string \<Rightarrow> py_error + (split_result \<times> string)" where
  "urlparse chk url scheme0 =
     (case urlsplit chk url scheme0 of
        Inl e \<Rightarrow> Inl e
      | Inr r \<Rightarrow>
          if scheme r \<in> set uses_params \<and> CHR '';'' \<in> set (path r)
          then Inr (r\<lparr>path := fst (splitparams (path r))\<rparr>, snd (splitparams (path r)))
          else Inr (r, []))"

definition urlunsplit :: "split_result \<Rightarrow> string" where
  "urlunsplit r =
     (let url1 = (if netloc r \<noteq> [] \<or> (scheme r \<noteq> [] \<and> scheme r \<in> set uses_netloc)
                     \<or> take 2 (path r) = ''//''
                  then ''//'' @ netloc r @
                         (if path r \<noteq> [] \<and> take 1 (path r) \<noteq> ''/'' then ''/'' @ path r else path r)
                  else path r);
          url2 = (if scheme r \<noteq> [] then scheme r @ '':'' @ url1 else url1);
          url3 = (if query r \<noteq> [] then url2 @ ''?'' @ query r else url2)
      in if fragment r \<noteq> [] then url3 @ ''#'' @ fragment r else url3)"

definition urlunparse :: "split_result \<times> string \<Rightarrow> string" where
  "urlunparse rp =
     (case rp of (r, params) \<Rightarrow>
        urlunsplit (if params \<noteq> [] then r\<lparr>path := path r @ '';'' @ params\<rparr> else r))"

text \<open>The loop of \<open>urljoin\<close> that resolves \<open>.\<close> and \<open>..\<close>; popping the empty list is ignored.\<close>

fun resolve_segments :: "string list \<Rightarrow> string list \<Rightarrow> string list" where
  "resolve_segments resolved [] = resolved"
| "resolve_segments resolved (seg # segs) =
     (if seg = ''..'' then resolve_segments (butlast resolved) segs
      else if seg = ''.'' then resolve_segments resolved segs
      else resolve_segments (resolved @ [seg]) segs)"

text \<open>\<open>segments[1:-1] = filter(None, segments[1:-1])\<close>.\<close>

definition filter_inner :: "string list \<Rightarrow> string list" where
  "filter_inner segs =
     (if length segs \<le> 2 then segs
      else hd segs # filter (\<lambda>s. s \<noteq> []) (butlast (tl segs)) @ [last segs])"

definition urljoin :: "(string \<Rightarrow> bool) \<Rightarrow> string \<Rightarrow> string \<Rightarrow> py_error + string" where
  "urljoin chk base url =
    (if base = [] then Inr url
     else if url = [] then Inr base
     else
       case urlparse chk base [] of
         Inl e \<Rightarrow> Inl e
       | Inr (b, bparams) \<Rightarrow>
          (case urlparse chk url (scheme b) of
             Inl e \<Rightarrow> Inl e
           | Inr (r, params) \<Rightarrow>
               if scheme r \<noteq> scheme b \<or> scheme r \<notin> set uses_relative then Inr url
               else if scheme r \<in> set uses_netloc \<and> netloc r \<noteq> [] then Inr (urlunparse (r, params))
               else
                 (let nl = (if scheme r \<in> set uses_netloc then netloc b else netloc r)
                  in if path r = [] \<and> params = []
                     then Inr (urlunparse
                            (r\<lparr>netloc := nl, path := path b,
                               query := (if query r = [] then query b else query r)\<rparr>, bparams))
                     else
                       (let parts0 = py_split (CHR ''/'') (path b);
                            base_parts = (if last parts0 \<noteq> [] then butlast parts0 else parts0);
                            segments = (if take 1 (path r) = ''/''
                                        then py_split (CHR ''/'') (path r)
                                        else filter_inner (base_parts @ py_split (CHR ''/'') (path r)));
                            resolved0 = resolve_segments [] segments;
                            resolved = (if last segments \<in> {''.'', ''..''}
                                        then resolved0 @ [[]] else resolved0);
                            joined = py_join (CHR ''/'') resolved
                        in Inr (urlunparse
                             (r\<lparr>netloc := nl, path := (if joined = [] then ''/'' else joined)\<rparr>,
                              params))))))"

section \<open>\<open>normalize_url\<close>\<close>

definition SEARCH_URL :: string where
  "SEARCH_URL = ''https://www.apartments.com/apartments/seattle-wa/''"

text \<open>\<open>re.sub(r"/+", "/", path)\<close>: every run of slashes becomes one slash.\<close>

fun collapse_slashes :: "string \<Rightarrow> string" where
  "collapse_slashes (a # b # cs) =
     (if a = CHR ''/'' \<and> b = CHR ''/'' then collapse_slashes (b # cs)
      else a # collapse_slashes (b # cs))"
| "collapse_slashes cs = cs"

text \<open>\<open>path.rstrip("/")\<close>.\<close>

definition rstrip_slash :: "string \<Rightarrow> string" where
  "rstrip_slash s = rev (dropWhile (\<lambda>c. c = CHR ''/'') (rev s))"

text \<open>The body of the \<open>try\<close> block of \<open>normalize_url\<close>; \<open>Inl\<close> is a raised exception.\<close>

definition normalize_url_try :: "(string \<Rightarrow> bool) \<Rightarrow> string \<Rightarrow> py_error + string" where
  "normalize_url_try chk u0 =
    (if u0 = [] then Inr []
     else
       (let u = py_strip u0
        in if startswith (py_lower u) ''javascript:'' \<or> startswith (py_lower u) ''mailto:''
           then Inr []
           else
             case urlsplit chk u [] of
               Inl e \<Rightarrow> Inl e
             | Inr p0 \<Rightarrow>
                 (case (if netloc p0 = []
                        then (case urljoin chk SEARCH_URL u of
                                Inl e \<Rightarrow> Inl e
                              | Inr joined \<Rightarrow> urlsplit chk joined [])
                        else Inr p0) of
                    Inl e \<Rightarrow> Inl e
                  | Inr p \<Rightarrow>
                      (let scheme1 = (if scheme p = [] then ''https'' else scheme p);
                           netloc1 = py_lower (netloc p);
                           netloc2 = (if startswith netloc1 ''www.'' then drop 4 netloc1 else netloc1);
                           path1 = collapse_slashes (if path p = [] then ''/'' else path p);
                           path2 = rstrip_slash path1
                       in Inr (urlunsplit \<lparr>scheme = scheme1, netloc = netloc2, path = path2,
                                            query = [], fragment = []\<rparr>)))))"

text \<open>\<open>normalize_url\<close>: any exception of the body is caught and gives the empty string.\<close>

definition normalize_url :: "(string \<Rightarrow> bool) \<Rightarrow> string \<Rightarrow> string" where
  "normalize_url chk u = (case normalize_url_try chk u of Inl e \<Rightarrow> [] | Inr r \<Rightarrow> r)"

section \<open>The rendered-page client\<close>

text \<open>
  The Selenium driver is an external collaborator. Its session is a state \<open>'w\<close> (the
  browser together with the site it talks to) and its calls are the fields of a record.
  A call that can raise returns the exception as a value.
\<close>

record 'w browser =
  get :: "'w \<Rightarrow> string \<Rightarrow> py_error option \<times> 'w"
    \<comment> \<open>\<open>driver.get(url)\<close>: the session afterwards, and the exception if one was raised\<close>
  current_url :: "'w \<Rightarrow> string"
    \<comment> \<open>\<open>driver.current_url\<close> of a live session\<close>
  reveal :: "'w \<Rightarrow> 'w"
    \<comment> \<open>the scrolling and the clicks on show/load/view-more buttons of one page iteration;
        every exception there is swallowed, only the effect on the page remains\<close>
  hrefs :: "'w \<Rightarrow> string \<Rightarrow> string option list option"
    \<comment> \<open>\<open>find_elements(By.CSS_SELECTOR, sel)\<close> and the \<open>href\<close> of each element; the outer
        \<open>None\<close> is a raising \<open>find_elements\<close>, an inner \<open>None\<close> a missing or raising attribute\<close>
  find_element :: "'w \<Rightarrow> string \<Rightarrow> string option option"
    \<comment> \<open>\<open>find_element(By.XPATH, xp)\<close> and the element's \<open>href\<close>; \<open>None\<close> when either raises\<close>
  click :: "'w \<Rightarrow> string \<Rightarrow> 'w option"
    \<comment> \<open>scroll the element found by \<open>xp\<close> into view and click it; \<open>None\<close> when that raises\<close>
  settle :: "'w \<Rightarrow> string \<Rightarrow> 'w"
    \<comment> \<open>wait until the URL differs from the given one or the timeout elapses, then pause\<close>
  texts :: "'w \<Rightarrow> string \<Rightarrow> string list option"
    \<comment> \<open>\<open>find_elements(By.CSS_SELECTOR, sel)\<close> and the \<open>text\<close> of each element\<close>
  attrs :: "'w \<Rightarrow> string \<Rightarrow> string \<Rightarrow> string option list option"
    \<comment> \<open>\<open>find_elements(By.CSS_SELECTOR, sel)\<close> and the named attribute of each element\<close>
  page_source :: "'w \<Rightarrow> py_error + string"
    \<comment> \<open>\<open>driver.page_source\<close>\<close>

section \<open>\<open>collect_listing_links\<close>\<close>

definition link_selectors :: "string list" where
  "link_selectors = [''li.placard a[href]'', ''article.placard a[href]'', ''.placard a[href]'',
                     ''a.placardTitle[href]'', ''a.property-link[href]'',
                     [CHR ''a'', CHR ''['', CHR ''h'', CHR ''r'', CHR ''e'', CHR ''f'', CHR ''*'',
                      CHR ''='', CHR 0x27] @ ''/apartments/'' @ [CHR 0x27, CHR '']'']]"

text \<open>The six locators of the next control, in the order of the source, each named by what
  it matches (the XPath texts contain quotes and non-ASCII glyphs).\<close>

definition next_xpaths :: "string list" where
  "next_xpaths = [''rel=next'', ''aria-label contains next'', ''text contains Next'',
                  ''text contains a directional glyph'', ''li.next/a'', ''a.next'']"

text \<open>The state of the pagination loop: the session and the local variables of the function.
  \<open>page_index\<close> is the loop variable (0 before the first iteration).\<close>

record 'w traversal =
  world :: 'w
  collected :: "string list"
  page_links :: "string list"
  seen :: "string set"
  visited_page_urls :: "string set"
  page_index :: int

text \<open>The inner \<open>for e in elems\<close> loop: an element without \<open>href\<close>, or whose \<open>href\<close> normalizes
  to the empty string, or whose normal form was seen before, is skipped.\<close>

fun add_hrefs :: "(string \<Rightarrow> bool) \<Rightarrow> string option list \<Rightarrow> 'w traversal \<Rightarrow> 'w traversal" where
  "add_hrefs chk [] st = st"
| "add_hrefs chk (raw # raws) st =
     (case raw of
        None \<Rightarrow> add_hrefs chk raws st
      | Some raw_href \<Rightarrow>
          if raw_href = [] then add_hrefs chk raws st
          else
            (let href = normalize_url chk raw_href
             in if href = [] then add_hrefs chk raws st
                else if href \<notin> seen st
                then add_hrefs chk raws
                       (st\<lparr>seen := insert href (seen st),
                           page_links := page_links st @ [href],
                           collected := collected st @ [href]\<rparr>)
                else add_hrefs chk raws st))"

text \<open>The \<open>for sel in link_selectors\<close> loop: a raising selector is skipped, and the loop is
  left once the page has given 30 links.\<close>

fun gather_links :: "(string \<Rightarrow> bool) \<Rightarrow> 'w browser \<Rightarrow> string list \<Rightarrow> 'w traversal \<Rightarrow> 'w traversal" where
  "gather_links chk b [] st = st"
| "gather_links chk b (sel # sels) st =
     (case hrefs b (world st) sel of
        None \<Rightarrow> gather_links chk b sels st
      | Some elems \<Rightarrow>
          (let st1 = add_hrefs chk elems st
           in if length (page_links st1) \<ge> 30 then st1 else gather_links chk b sels st1))"

definition collect_page :: "(string \<Rightarrow> bool) \<Rightarrow> 'w browser \<Rightarrow> 'w traversal \<Rightarrow> 'w traversal" where
  "collect_page chk b st =
     (let st1 = gather_links chk b link_selectors (st\<lparr>page_links := []\<rparr>)
      in if page_links st1 = []
         then (case hrefs b (world st1) (last link_selectors) of
                 None \<Rightarrow> st1
               | Some anchors \<Rightarrow> add_hrefs chk anchors st1)
         else st1)"

text \<open>The search for a next control: the first locator whose element can be clicked, or
  (when the click raises) whose \<open>href\<close> can be loaded, gives the next session.\<close>

fun advance :: "'w browser \<Rightarrow> string \<Rightarrow> string list \<Rightarrow> 'w \<Rightarrow> 'w option" where
  "advance b cur [] w = None"
| "advance b cur (xp # xps) w =
     (case find_element b w xp of
        None \<Rightarrow> advance b cur xps w
      | Some href \<Rightarrow>
          (case click b w xp of
             Some w1 \<Rightarrow> Some (settle b w1 cur)
           | None \<Rightarrow>
               (case href of
                  None \<Rightarrow> advance b cur xps w
                | Some h \<Rightarrow>
                    if h = [] then advance b cur xps w
                    else (case get b w h of
                            (None, w1) \<Rightarrow> Some (settle b w1 cur)
                          | (Some e, w1) \<Rightarrow> advance b cur xps w1))))"

text \<open>A limit stops the loop when it is set (neither \<open>None\<close> nor 0) and reached.\<close>

definition limit_reached :: "int option \<Rightarrow> string list \<Rightarrow> bool" where
  "limit_reached cap xs = (case cap of None \<Rightarrow> False | Some m \<Rightarrow> m \<noteq> 0 \<and> int (length xs) \<ge> m)"

text \<open>The loop \<open>for page_index in range(1, max_pages + 1)\<close>, over the list of its indices.\<close>

fun paginate ::
  "(string \<Rightarrow> bool) \<Rightarrow> 'w browser \<Rightarrow> int option \<Rightarrow> int option \<Rightarrow> int list \<Rightarrow> 'w traversal \<Rightarrow> 'w traversal" where
  "paginate chk b max_listings global_max [] st = st"
| "paginate chk b max_listings global_max (i # is) st =
     (let st0 = st\<lparr>page_index := i\<rparr>;
          cur = current_url b (world st0)
      in if cur \<in> visited_page_urls st0 then st0
         else
           (let st1 = st0\<lparr>visited_page_urls := insert cur (visited_page_urls st0),
                          world := reveal b (world st0)\<rparr>;
                st2 = collect_page chk b st1
            in if limit_reached max_listings (collected st2) then st2
               else if limit_reached global_max (collected st2) then st2
               else (case advance b cur next_xpaths (world st2) of
                       None \<Rightarrow> st2
                     | Some w1 \<Rightarrow> paginate chk b max_listings global_max is (st2\<lparr>world := w1\<rparr>))))"

text \<open>The whole traversal, as the final loop state; an exception of the first
  \<open>driver.get\<close> is not caught.\<close>

definition traverse ::
  "(string \<Rightarrow> bool) \<Rightarrow> 'w browser \<Rightarrow> int option \<Rightarrow> 'w \<Rightarrow> string \<Rightarrow> int option \<Rightarrow> int
     \<Rightarrow> py_error + 'w traversal" where
  "traverse chk b global_max w search_url max_listings max_pages =
     (case get b w search_url of
        (Some e, w1) \<Rightarrow> Inl e
      | (None, w1) \<Rightarrow>
          Inr (paginate chk b max_listings global_max [1..max_pages]
                 \<lparr>world = w1, collected = [], page_links = [], seen = {},
                  visited_page_urls = {}, page_index = 0\<rparr>))"

definition collect_listing_links ::
  "(string \<Rightarrow> bool) \<Rightarrow> 'w browser \<Rightarrow> int option \<Rightarrow> 'w \<Rightarrow> string \<Rightarrow> int option \<Rightarrow> int
     \<Rightarrow> py_error + string list" where
  "collect_listing_links chk b global_max w search_url max_listings max_pages =
     (case traverse chk b global_max w search_url max_listings max_pages of
        Inl e \<Rightarrow> Inl e
      | Inr st \<Rightarrow> Inr (collected st))"

section \<open>Files\<close>

text \<open>
  A CSV cell is a string or an integer; a row is a list of cells; a file is the list of its
  rows, and the file system maps a path to the file stored there. Opening and writing
  fail only where the code depends on it: reading a missing file, and writing through a
  handle that was closed.
\<close>

datatype cell = CStr string | CInt int

type_synonym row = "cell list"

type_synonym fs = "string \<rightharpoonup> row list"

definition log_header :: row where
  "log_header = [CStr ''worker'', CStr ''index'', CStr ''total'', CStr ''title'', CStr ''address'',
                 CStr ''url'', CStr ''built_year'', CStr ''status'', CStr ''note'']"

definition result_header :: row where
  "result_header = [CStr ''title'', CStr ''address'', CStr ''built_year'', CStr ''url'']"

text \<open>\<open>_append_log_row\<close>: the header goes first when the file does not exist yet.\<close>

definition append_log_row :: "fs \<Rightarrow> string \<Rightarrow> row \<Rightarrow> fs" where
  "append_log_row files logfile r =
     (case files logfile of
        None \<Rightarrow> files(logfile \<mapsto> [log_header, r])
      | Some rows \<Rightarrow> files(logfile \<mapsto> rows @ [r]))"

text \<open>An open file object: its path, and whether it has been closed.\<close>

record handle =
  h_path :: string
  h_closed :: bool

text \<open>\<open>open(path, mode)\<close> for the modes \<open>w\<close> (truncate or create) and \<open>a\<close> (create when missing).\<close>

definition open_file :: "fs \<Rightarrow> string \<Rightarrow> string \<Rightarrow> handle \<times> fs" where
  "open_file files p mode =
     (\<lparr>h_path = p, h_closed = False\<rparr>,
      if mode = ''w'' then files(p \<mapsto> [])
      else (case files p of None \<Rightarrow> files(p \<mapsto> []) | Some rows \<Rightarrow> files))"

text \<open>\<open>writer.writerow(r)\<close> on the writer of a file object: writing to a closed file raises
  \<open>ValueError\<close>.\<close>

definition writerow :: "fs \<Rightarrow> handle \<Rightarrow> row \<Rightarrow> py_error + fs" where
  "writerow files h r =
     (if h_closed h then Inl (ValueError ''I/O operation on closed file.'')
      else Inr (files(h_path h \<mapsto> (case files (h_path h) of None \<Rightarrow> [r] | Some rows \<Rightarrow> rows @ [r]))))"

section \<open>The extraction pipeline\<close>

text \<open>\<open>str(n)\<close> for an integer.\<close>

function str_nat :: "nat \<Rightarrow> string" where
  "str_nat n = (if n < 10 then [digits ! n] else str_nat (n div 10) @ [digits ! (n mod 10)])"
  by pat_completeness auto
termination
  by (relation "measure (\<lambda>n. n)") auto

definition str_int :: "int \<Rightarrow> string" where
  "str_int i = (if i < 0 then ''-'' @ str_nat (nat (- i)) else str_nat (nat i))"

text \<open>\<open>int(s)\<close> for a string of decimal digits.\<close>

definition digit_value :: "char \<Rightarrow> int" where
  "digit_value c = int (of_char c) - 48"

definition int_of_digits :: "string \<Rightarrow> int" where
  "int_of_digits s = foldl (\<lambda>a c. 10 * a + digit_value c) 0 s"

text \<open>
  The pattern \<open>Built in\s*([0-9]{4})\<close> with \<open>re.IGNORECASE\<close>, matched at the start of a text:
  the eight characters of the phrase in any case, any run of blanks, four digits.
  The blanks and the digits are disjoint, so the greedy \<open>\s*\<close> never has to give back.
\<close>

definition match_built_in :: "string \<Rightarrow> int option" where
  "match_built_in s =
     (if py_lower (take 8 s) = ''built in''
      then (let d = take 4 (dropWhile is_space (drop 8 s))
            in if length d = 4 \<and> list_all is_digit d then Some (int_of_digits d) else None)
      else None)"

text \<open>\<open>re.search\<close>: the leftmost position where the pattern matches; the result is
  \<open>int(m.group(1))\<close>.\<close>

fun re_search_built_in :: "string \<Rightarrow> int option" where
  "re_search_built_in [] = match_built_in []"
| "re_search_built_in (c # cs) =
     (case match_built_in (c # cs) of
        Some y \<Rightarrow> Some y
      | None \<Rightarrow> re_search_built_in cs)"

text \<open>The title: the stripped text of the first \<open>h1\<close>, when it is not blank.\<close>

definition extract_title :: "'w browser \<Rightarrow> 'w \<Rightarrow> string" where
  "extract_title b w =
     (case texts b w ''h1'' of
        None \<Rightarrow> []
      | Some [] \<Rightarrow> []
      | Some (t # ts) \<Rightarrow> if py_strip t \<noteq> [] then py_strip t else [])"

text \<open>The address: the stripped text of the first address element, else the stripped content
  of the first description \<open>meta\<close> element.\<close>

definition extract_address :: "'w browser \<Rightarrow> 'w \<Rightarrow> string" where
  "extract_address b w =
     (let address = (case texts b w ''.propertyAddress, .property-address, .js-address'' of
                       None \<Rightarrow> []
                     | Some [] \<Rightarrow> []
                     | Some (t # ts) \<Rightarrow> if py_strip t \<noteq> [] then py_strip t else [])
      in if address = []
         then (case attrs b w (''meta[name='' @ [CHR 0x27] @ ''description'' @ [CHR 0x27] @ '']'') ''content'' of
                 None \<Rightarrow> address
               | Some [] \<Rightarrow> address
               | Some (None # ms) \<Rightarrow> address
               | Some (Some content # ms) \<Rightarrow> if content \<noteq> [] then py_strip content else address)
         else address)"

text \<open>The outcome of one visit: the row for the audit log, and the result tuple
  \<open>(title, address, built_year, link)\<close> when the link is saved.\<close>

type_synonym result = "string \<times> string \<times> int \<times> string"

record visit =
  v_status :: string
  v_log_row :: row
  v_saved :: "result option"

definition log_row ::
  "int \<Rightarrow> int \<Rightarrow> int \<Rightarrow> string \<Rightarrow> string \<Rightarrow> string \<Rightarrow> int option \<Rightarrow> string \<Rightarrow> string \<Rightarrow> row" where
  "log_row worker_id idx tot title address link built_year status note =
     [CInt worker_id, CInt idx, CInt tot, CStr title, CStr address, CStr link,
      (case built_year of None \<Rightarrow> CStr [] | Some y \<Rightarrow> CInt y), CStr status, CStr note]"

text \<open>
  One iteration of the loop of \<open>process_link_batch\<close> on an already loaded page: the
  statements from the title extraction on. \<open>Inl\<close> is the exception handler's row.
\<close>

definition classify ::
  "'w browser \<Rightarrow> 'w \<Rightarrow> int \<Rightarrow> string \<Rightarrow> int \<Rightarrow> int \<Rightarrow> int \<Rightarrow> string \<Rightarrow> visit" where
  "classify b w min_year city_filter worker_id idx tot link =
     (let title = extract_title b w;
          address = extract_address b w
      in case page_source b w of
           Inl e \<Rightarrow>
             \<lparr>v_status = ''error'',
              v_log_row = log_row worker_id idx tot title address link None ''error'' (str_of_error e),
              v_saved = None\<rparr>
         | Inr page_text \<Rightarrow>
             (case re_search_built_in page_text of
                None \<Rightarrow>
                  \<lparr>v_status = ''no_built_in'',
                   v_log_row = log_row worker_id idx tot title address link None ''no_built_in''
                                 ([CHR 0x27] @ ''Built in'' @ [CHR 0x27] @ '' phrase not found''),
                   v_saved = None\<rparr>
              | Some built_year \<Rightarrow>
                  if built_year < min_year
                  then \<lparr>v_status = ''too_old'',
                        v_log_row = log_row worker_id idx tot title address link (Some built_year)
                                      ''too_old''
                                      (''Built in '' @ str_int built_year @ '' < '' @ str_int min_year),
                        v_saved = None\<rparr>
                  else if city_filter \<noteq> []
                          \<and> (address = [] \<or> \<not> py_in (py_lower city_filter) (py_lower address))
                  then \<lparr>v_status = ''city_mismatch'',
                        v_log_row = log_row worker_id idx tot title address link (Some built_year)
                                      ''city_mismatch''
                                      (''Address does not contain '' @ [CHR 0x27] @ city_filter
                                         @ [CHR 0x27]),
                        v_saved = None\<rparr>
                  else \<lparr>v_status = ''saved'',
                        v_log_row = log_row worker_id idx tot title address link (Some built_year)
                                      ''saved'' (''Built in '' @ str_int built_year),
                        v_saved = Some (title, address, built_year, link)\<rparr>))"

text \<open>One iteration with its \<open>driver.get(link)\<close>: a raising navigation gives the \<open>error\<close> row
  with empty title, address and year.\<close>

definition process_link ::
  "'w browser \<Rightarrow> 'w \<Rightarrow> int \<Rightarrow> string \<Rightarrow> int \<Rightarrow> int \<Rightarrow> int \<Rightarrow> string \<Rightarrow> visit \<times> 'w" where
  "process_link b w min_year city_filter worker_id idx tot link =
     (case get b w link of
        (Some e, w1) \<Rightarrow>
          (\<lparr>v_status = ''error'',
            v_log_row = log_row worker_id idx tot [] [] link None ''error'' (str_of_error e),
            v_saved = None\<rparr>, w1)
      | (None, w1) \<Rightarrow> (classify b w1 min_year city_filter worker_id idx tot link, w1))"

text \<open>The state of a worker: its session, its \<open>results\<close> list, and the files.\<close>

record 'w worker =
  session :: 'w
  results :: "result list"
  files :: fs

definition log_file :: string where
  "log_file = ''screened_log.csv''"

text \<open>The loop \<open>for idx, link in enumerate(links, start=1)\<close>; \<open>tot\<close> stands for \<open>len(links)\<close>.\<close>

fun visit_links ::
  "'w browser \<Rightarrow> int \<Rightarrow> string \<Rightarrow> int \<Rightarrow> int \<Rightarrow> int \<Rightarrow> string list \<Rightarrow> 'w worker \<Rightarrow> 'w worker" where
  "visit_links b min_year city_filter worker_id tot idx [] st = st"
| "visit_links b min_year city_filter worker_id tot idx (link # links) st =
     (case process_link b (session st) min_year city_filter worker_id idx tot link of
        (v, w1) \<Rightarrow>
          visit_links b min_year city_filter worker_id tot (idx + 1) links
            \<lparr>session = w1,
             results = (case v_saved v of None \<Rightarrow> results st | Some r \<Rightarrow> results st @ [r]),
             files = append_log_row (files st) log_file (v_log_row v)\<rparr>)"

text \<open>The dedup pass over \<open>results\<close>: a tuple whose URL normalizes to the empty string, or to a
  key met before, is dropped.\<close>

fun dedupe :: "(string \<Rightarrow> bool) \<Rightarrow> string set \<Rightarrow> result list \<Rightarrow> result list" where
  "dedupe chk seen_res [] = []"
| "dedupe chk seen_res ((title, address, built_year, url) # rs) =
     (let key = normalize_url chk url
      in if key = [] \<or> key \<in> seen_res then dedupe chk seen_res rs
         else (title, address, built_year, url) # dedupe chk (insert key seen_res) rs)"

definition hyperlink_formula :: "string \<Rightarrow> string \<Rightarrow> string" where
  "hyperlink_formula url title =
     ''=HYPERLINK('' @ [CHR 0x22] @ url @ [CHR 0x22] @ '', '' @ [CHR 0x22]
       @ (if title \<noteq> [] then title else ''Listing'') @ [CHR 0x22] @ '')''"

definition result_row :: "result \<Rightarrow> row" where
  "result_row r =
     (case r of (title, address, built_year, url) \<Rightarrow>
        [CStr title, CStr address, CInt built_year, CStr (hyperlink_formula url title)])"

text \<open>The loop \<open>for row in results\<close>, which stops at the first exception.\<close>

fun write_rows :: "fs \<Rightarrow> handle \<Rightarrow> result list \<Rightarrow> py_error + fs" where
  "write_rows fl h [] = Inr fl"
| "write_rows fl h (r # rs) =
     (case writerow fl h (result_row r) of
        Inl e \<Rightarrow> Inl e
      | Inr fl1 \<Rightarrow> write_rows fl1 h rs)"

text \<open>
  The write of the results. The \<open>with open(...) as f\<close> block holds only the creation of
  the writer and the header; the loop over the rows stands after it, where \<open>f\<close> has been
  closed. The exception is caught by the enclosing \<open>try\<close> and printed.
\<close>

definition write_results :: "fs \<Rightarrow> string \<Rightarrow> result list \<Rightarrow> fs" where
  "write_results fl output_csv rs =
     (if rs = [] then fl
      else
        (let mode = (case fl output_csv of None \<Rightarrow> ''w'' | Some rows \<Rightarrow> ''a'');
             (f, fl1) = open_file fl output_csv mode;
             fl2 = (if mode = ''w''
                    then (case writerow fl1 f result_header of Inl e \<Rightarrow> fl1 | Inr fl' \<Rightarrow> fl')
                    else fl1);
             f_after = f\<lparr>h_closed := True\<rparr>
         in case write_rows fl2 f_after rs of
              Inl e \<Rightarrow> fl2
            | Inr fl3 \<Rightarrow> fl3))"

definition process_link_batch ::
  "(string \<Rightarrow> bool) \<Rightarrow> 'w browser \<Rightarrow> 'w \<Rightarrow> fs \<Rightarrow> string list \<Rightarrow> int \<Rightarrow> string \<Rightarrow> string \<Rightarrow> int \<Rightarrow> fs" where
  "process_link_batch chk b w fl links min_year city_filter output_csv worker_id =
     (let st = visit_links b min_year city_filter worker_id (int (length links)) 1 links
                 \<lparr>session = w, results = [], files = fl\<rparr>;
          rs = (if results st \<noteq> [] then dedupe chk {} (results st) else results st)
      in write_results (files st) output_csv rs)"

section \<open>\<open>main\<close>\<close>

text \<open>The editable constants of the module.\<close>

record config =
  OUTPUT_CSV :: string
  MIN_YEAR :: int
  CITY_FILTER :: string
  WORKERS :: int
  MAX_LISTINGS :: "int option"

definition default_config :: config where
  "default_config = \<lparr>OUTPUT_CSV = ''results.csv'', MIN_YEAR = 2023, CITY_FILTER = ''Seattle'',
                      WORKERS = 1, MAX_LISTINGS = None\<rparr>"

text \<open>\<open>xs[a:b]\<close> for indices \<open>0 \<le> a \<le> b\<close>.\<close>

definition py_slice :: "'a list \<Rightarrow> int \<Rightarrow> int \<Rightarrow> 'a list" where
  "py_slice xs a b = take (nat b - nat a) (drop (nat a) xs)"

text \<open>
  The split into batches: \<open>workers = min(WORKERS, n)\<close>, \<open>batch_size = math.ceil(n / workers)\<close>
  and one slice per worker. The division raises for \<open>workers = 0\<close>; the ceiling of the
  float quotient is the integer ceiling for every list that fits into memory.
\<close>

definition batch_count :: "int \<Rightarrow> 'a list \<Rightarrow> int" where
  "batch_count w links = min w (int (length links))"

definition batch_size :: "int \<Rightarrow> 'a list \<Rightarrow> int" where
  "batch_size w links = - ((- int (length links)) div batch_count w links)"

definition make_batches :: "int \<Rightarrow> 'a list \<Rightarrow> py_error + 'a list list" where
  "make_batches w links =
     (if batch_count w links = 0 then Inl (ZeroDivisionError ''division by zero'')
      else Inr (map (\<lambda>i. py_slice links (i * batch_size w links) ((i + 1) * batch_size w links))
                  [0..batch_count w links - 1]))"

text \<open>The jobs handed to the pool: every non-empty batch with its 1-based position.\<close>

definition dispatch :: "'a list list \<Rightarrow> (int \<times> 'a list) list" where
  "dispatch batches = filter (\<lambda>(i, batch). batch \<noteq> []) (zip [1..int (length batches)] batches)"

text \<open>What a run leaves behind: the files, the jobs given to workers, and the exception that
  ended it, if any.\<close>

record run =
  r_files :: fs
  r_jobs :: "(int \<times> string list) list"
  r_failure :: "py_error option"

text \<open>
  The pool runs the jobs in parallel, and the lock makes each write atomic. The model runs
  them one after the other in the order of submission, each in its own fresh session
  \<open>fresh i\<close>; another schedule interleaves the audit rows of different workers differently.
\<close>

fun run_jobs ::
  "(string \<Rightarrow> bool) \<Rightarrow> 'w browser \<Rightarrow> (int \<Rightarrow> 'w) \<Rightarrow> config \<Rightarrow> (int \<times> string list) list \<Rightarrow> fs \<Rightarrow> fs" where
  "run_jobs chk b fresh cfg [] fl = fl"
| "run_jobs chk b fresh cfg ((i, batch) # jobs) fl =
     run_jobs chk b fresh cfg jobs
       (process_link_batch chk b (fresh i) fl batch (MIN_YEAR cfg) (CITY_FILTER cfg)
          (OUTPUT_CSV cfg) i)"

definition main ::
  "(string \<Rightarrow> bool) \<Rightarrow> 'w browser \<Rightarrow> 'w \<Rightarrow> (int \<Rightarrow> 'w) \<Rightarrow> config \<Rightarrow> fs \<Rightarrow> run" where
  "main chk b master fresh cfg fl =
     (case collect_listing_links chk b (MAX_LISTINGS cfg) master SEARCH_URL None 50 of
        Inl e \<Rightarrow> \<lparr>r_files = fl, r_jobs = [], r_failure = Some e\<rparr>
      | Inr links \<Rightarrow>
          if links = [] then \<lparr>r_files = fl, r_jobs = [], r_failure = None\<rparr>
          else
            (let fl1 = fl(OUTPUT_CSV cfg \<mapsto> [result_header])
             in case make_batches (WORKERS cfg) links of
                  Inl e \<Rightarrow> \<lparr>r_files = fl1, r_jobs = [], r_failure = Some e\<rparr>
                | Inr batches \<Rightarrow>
                    if batch_count (WORKERS cfg) links \<le> 0
                    then \<lparr>r_files = fl1, r_jobs = [],
                          r_failure = Some (ValueError ''max_workers must be greater than 0'')\<rparr>
                    else \<lparr>r_files = run_jobs chk b fresh cfg (dispatch batches) fl1,
                          r_jobs = dispatch batches, r_failure = None\<rparr>))"

section \<open>Specification predicates and example inputs\<close>

text \<open>The dedup key of a result tuple: the normal form of its URL.\<close>

definition result_key :: "(string \<Rightarrow> bool) \<Rightarrow> result \<Rightarrow> string" where
  "result_key chk r = (case r of (title, address, built_year, url) \<Rightarrow> normalize_url chk url)"

text \<open>A bracketed-host check that accepts nothing, for closed examples: their URLs hold no
  bracket, so the check is never consulted.\<close>

definition reject_brackets :: "string \<Rightarrow> bool" where
  "reject_brackets h = False"

text \<open>Three saved tuples, the first two with the same key.\<close>

definition three_listings :: "result list" where
  "three_listings =
     [(''Loft'', ''1 Pine St, Seattle, WA'', 2024, ''https://www.example.com/loft/''),
      (''Loft again'', ''1 Pine St, Seattle, WA'', 2024, ''https://example.com/loft''),
      (''Flat'', ''2 Oak St, Seattle, WA'', 2023, ''https://example.com/flat'')]"






text \<open>A small site for the closed examples. The session is the URL of the loaded page.\<close>

definition site_title :: "string \<Rightarrow> string" where
  "site_title w =
     (if w = ''https://example.com/new'' then '' Pine Lofts ''
      else if w = ''https://example.com/old'' then ''Oak Court''
      else [])"

definition site_address :: "string \<Rightarrow> string" where
  "site_address w =
     (if w = ''https://example.com/new'' then ''1 Pine St, SEATTLE, WA''
      else if w = ''https://example.com/old'' then ''2 Oak St, Seattle, WA''
      else if w = ''https://example.com/tacoma'' then ''3 Elm St, Tacoma, WA''
      else [])"

definition site_source :: "string \<Rightarrow> string" where
  "site_source w =
     (if w = ''https://example.com/new'' then ''<p>Built in 2024</p>''
      else if w = ''https://example.com/old'' then ''<p>built IN  2019</p>''
      else if w = ''https://example.com/tacoma'' then ''<p>Built in 2024</p>''
      else ''<p>Rebuilt in 20 days</p>'')"

definition site :: "string browser" where
  "site =
     \<lparr>get = (\<lambda>w url. if url = ''https://example.com/offline''
                      then (Some (WebDriverException ''net::ERR_CONNECTION_REFUSED''), w)
                      else (None, url)),
      current_url = (\<lambda>w. w),
      reveal = (\<lambda>w. w),
      hrefs = (\<lambda>w sel. Some []),
      find_element = (\<lambda>w xp. None),
      click = (\<lambda>w xp. None),
      settle = (\<lambda>w cur. w),
      texts = (\<lambda>w sel. if sel = ''h1'' then Some [site_title w] else Some [site_address w]),
      attrs = (\<lambda>w sel name. Some []),
      page_source = (\<lambda>w. Inr (site_source w))\<rparr>"


text \<open>Link lists for the examples, and the state in which the traversal of the looping
  site ends.\<close>

definition ten_links :: "string list" where
  "ten_links = [''a'', ''b'', ''c'', ''d'', ''e'', ''f'', ''g'', ''h'', ''i'', ''j'']"







section \<open>Properties of \<open>normalize_url\<close>\<close>

text \<open>
  C4, as the code has it: \<open>normalize_url("HTTP://WWW.Example.com//a//b/")\<close> is
  \<open>http://example.com/a/b\<close>. The host is lowercased and loses its leading \<open>www.\<close>, the
  repeated slashes collapse and the trailing slash goes; the scheme is lowercased and
  kept, \<open>https\<close> being only the default for an input without scheme.
\<close>

theorem normalize_url_example:
  "normalize_url chk ''HTTP://WWW.Example.com//a//b/'' = ''http://example.com/a/b''"
  by code_simp

text \<open>C4 as stated fails: the result is not \<open>https://example.com/a/b\<close>.\<close>

theorem normalize_url_example_counterexample:
  "normalize_url reject_brackets ''HTTP://WWW.Example.com//a//b/'' \<noteq> ''https://example.com/a/b''"
  by code_simp

text \<open>The two prefixes that the code tests give the empty string, in any case and with
  blanks around.\<close>

lemma normalize_url_rejects:
  "startswith (py_lower (py_strip u)) ''javascript:'' \<or> startswith (py_lower (py_strip u)) ''mailto:''
   \<Longrightarrow> normalize_url chk u = []"
  by (simp add: normalize_url_def normalize_url_try_def Let_def)

text \<open>
  C5, at a \<open>tel:\<close> link: the code tests only the prefixes \<open>javascript:\<close> and \<open>mailto:\<close>, so
  \<open>normalize_url("tel:+15551234567")\<close> is the input itself and not the empty string.
\<close>

theorem normalize_url_tel:
  "normalize_url chk ''tel:+15551234567'' = ''tel:+15551234567''"
  by code_simp


section \<open>Properties of the dedup pass\<close>

lemma dedupe_keys_fresh:
  "r \<in> set (dedupe chk S rs) \<Longrightarrow> result_key chk r \<noteq> [] \<and> result_key chk r \<notin> S"
proof (induction rs arbitrary: S)
  case Nil
  then show ?case by simp
next
  case (Cons a rs)
  obtain t ad y u where a: "a = (t, ad, y, u)" by (cases a) auto
  show ?case
  proof (cases "normalize_url chk u = [] \<or> normalize_url chk u \<in> S")
    case True
    with Cons a show ?thesis by (simp add: Let_def)
  next
    case False
    with Cons.prems a have "r = a \<or> r \<in> set (dedupe chk (insert (normalize_url chk u) S) rs)"
      by (simp add: Let_def)
    then show ?thesis
    proof
      assume "r = a"
      with False a show ?thesis by (simp add: result_key_def)
    next
      assume "r \<in> set (dedupe chk (insert (normalize_url chk u) S) rs)"
      from Cons.IH[OF this] show ?thesis by simp
    qed
  qed
qed

lemma dedupe_distinct: "distinct (map (result_key chk) (dedupe chk S rs))"
proof (induction rs arbitrary: S)
  case Nil
  then show ?case by simp
next
  case (Cons a rs)
  obtain t ad y u where a: "a = (t, ad, y, u)" by (cases a) auto
  show ?case
  proof (cases "normalize_url chk u = [] \<or> normalize_url chk u \<in> S")
    case True
    with Cons a show ?thesis by (simp add: Let_def)
  next
    case False
    have ka: "result_key chk a = normalize_url chk u"
      using a by (simp add: result_key_def)
    have fresh: "normalize_url chk u \<notin> result_key chk ` set (dedupe chk (insert (normalize_url chk u) S) rs)"
    proof
      assume "normalize_url chk u \<in> result_key chk ` set (dedupe chk (insert (normalize_url chk u) S) rs)"
      then obtain r where r: "r \<in> set (dedupe chk (insert (normalize_url chk u) S) rs)"
        and k: "normalize_url chk u = result_key chk r"
        by (rule imageE)
      from dedupe_keys_fresh[OF r] k show False by simp
    qed
    from fresh ka have "result_key chk a \<notin> result_key chk ` set (dedupe chk (insert (normalize_url chk u) S) rs)"
      by simp
    with False Cons.IH a show ?thesis by (simp add: Let_def)
  qed
qed

lemma dedupe_subseq: "subseq (dedupe chk S rs) rs"
proof (induction rs arbitrary: S)
  case Nil
  then show ?case by simp
next
  case (Cons a rs)
  obtain t ad y u where a: "a = (t, ad, y, u)" by (cases a) auto
  show ?case using Cons.IH a by (auto simp: Let_def)
qed

lemma dedupe_find:
  "k \<noteq> [] \<Longrightarrow> k \<notin> S \<Longrightarrow>
   find (\<lambda>r. result_key chk r = k) (dedupe chk S rs) = find (\<lambda>r. result_key chk r = k) rs"
proof (induction rs arbitrary: S)
  case Nil
  then show ?case by simp
next
  case (Cons a rs)
  obtain t ad y u where a: "a = (t, ad, y, u)" by (cases a) auto
  show ?case
  proof (cases "normalize_url chk u = k")
    case True
    with Cons.prems a show ?thesis by (simp add: Let_def result_key_def)
  next
    case False
    show ?thesis
    proof (cases "normalize_url chk u = [] \<or> normalize_url chk u \<in> S")
      case True
      with False a Cons.IH[OF Cons.prems] show ?thesis by (simp add: Let_def result_key_def)
    next
      case nd: False
      from Cons.prems False have "k \<notin> insert (normalize_url chk u) S" by auto
      from Cons.IH[OF Cons.prems(1) this] nd False a show ?thesis
        by (simp add: Let_def result_key_def)
    qed
  qed
qed

text \<open>
  C8, as the code has it: in the output of the dedup pass no two tuples share a key, the
  tuples stand in the order of the input, none has the empty key, and for every key other
  than the empty string the first tuple with that key is the first such tuple of the
  input (so it is kept, and every later one is removed). A tuple whose URL normalizes to
  the empty string is dropped, also when it is the first of its kind.
\<close>

theorem dedupe_first_per_usable_key:
  "distinct (map (result_key chk) (dedupe chk {} rs))
   \<and> subseq (dedupe chk {} rs) rs
   \<and> (\<forall>r \<in> set (dedupe chk {} rs). result_key chk r \<noteq> [])
   \<and> (\<forall>k. k \<noteq> [] \<longrightarrow>
         find (\<lambda>r. result_key chk r = k) (dedupe chk {} rs) = find (\<lambda>r. result_key chk r = k) rs)"
  using dedupe_distinct[of chk "{}" rs] dedupe_subseq[of chk "{}" rs]
    dedupe_keys_fresh[of _ chk "{}" rs] dedupe_find[of _ "{}" chk rs]
  by auto

theorem dedupe_first_per_usable_key_witness:
  "dedupe reject_brackets {} three_listings = [three_listings ! 0, three_listings ! 2]
   \<and> find (\<lambda>r. result_key reject_brackets r = ''https://example.com/loft'')
        (dedupe reject_brackets {} three_listings) = Some (three_listings ! 0)"
proof -
  have kept: "dedupe reject_brackets {} three_listings = [three_listings ! 0, three_listings ! 2]"
    unfolding three_listings_def by code_simp
  have first: "find (\<lambda>r. result_key reject_brackets r = ''https://example.com/loft'') three_listings
                 = Some (three_listings ! 0)"
    unfolding three_listings_def by code_simp
  have "''https://example.com/loft'' \<noteq> ([] :: string)" by simp
  with dedupe_first_per_usable_key[of reject_brackets three_listings]
  have "find (\<lambda>r. result_key reject_brackets r = ''https://example.com/loft'')
          (dedupe reject_brackets {} three_listings)
        = find (\<lambda>r. result_key reject_brackets r = ''https://example.com/loft'') three_listings"
    by blast
  with kept first show ?thesis by simp
qed

text \<open>C8 as stated fails: a single tuple whose URL normalizes to the empty string is the
  first tuple of its key, and the pass removes it.\<close>

theorem dedupe_drops_sentinel_counterexample:
  "normalize_url reject_brackets ''mailto:a@b.com'' = []
   \<and> dedupe reject_brackets {} [(''Loft'', ''Seattle, WA'', 2024, ''mailto:a@b.com'')] = []"
  by code_simp

section \<open>Properties of the work partitioner\<close>

lemma upto_as_upt: "[0..int m - 1] = map int [0..<m]"
proof (induction m)
  case 0
  then show ?case by simp
next
  case (Suc m)
  have "[0..int (Suc m) - 1] = [0..int m - 1] @ [int m]"
    using upto_rec2[of 0 "int m"] by simp
  with Suc show ?case by simp
qed

lemma py_slice_block:
  "py_slice xs (int i * int b) ((int i + 1) * int b) = take b (drop (i * b) xs)"
proof -
  have a: "nat (int i * int b) = i * b"
    by (metis nat_int of_nat_mult)
  have "(int i + 1) * int b = int (i * b + b)"
    by (simp add: algebra_simps)
  then have c: "nat ((int i + 1) * int b) = i * b + b"
    by (metis nat_int)
  show ?thesis
    unfolding py_slice_def a c by simp
qed

lemma concat_blocks:
  "concat (map (\<lambda>i. take b (drop (i * b) xs)) [0..<m]) = take (m * b) xs"
proof (induction m)
  case 0
  then show ?case by simp
next
  case (Suc m)
  have "take (m * b) xs @ take b (drop (m * b) xs) = take (m * b + b) xs"
    by (simp add: take_add)
  with Suc show ?case by (simp add: add.commute)
qed

lemma filter_downward:
  assumes "\<And>i j. i \<le> j \<Longrightarrow> P j \<Longrightarrow> P i"
  shows "filter P [0..<m] = [0..<length (filter P [0..<m])]"
proof (induction m)
  case 0
  then show ?case by simp
next
  case (Suc m)
  show ?case
  proof (cases "P m")
    case True
    have "P i" if "i < m" for i
      using assms[of i m] that True by simp
    then have "\<forall>i \<in> set [0..<m]. P i" by simp
    then have "filter P [0..<m] = [0..<m]" by (simp add: filter_id_conv)
    with True show ?thesis by simp
  next
    case False
    with Suc show ?thesis by simp
  qed
qed

lemma snd_filter_zip:
  "length xs = length ys \<Longrightarrow>
   map snd (filter (\<lambda>(i, y). P y) (zip xs ys)) = filter P ys"
  by (induction xs ys rule: list_induct2) auto

lemma dispatch_batches: "map snd (dispatch batches) = filter (\<lambda>b. b \<noteq> []) batches"
  unfolding dispatch_def by (rule snd_filter_zip) simp

lemma ceil_cover:
  assumes "0 < (m::int)" "0 \<le> n"
  shows "n \<le> m * (- ((- n) div m))" and "0 < n \<Longrightarrow> 0 < - ((- n) div m)"
proof -
  have r: "0 \<le> (- n) mod m" using assms(1) by simp
  have "m * ((- n) div m) + (- n) mod m = - n" by simp
  with r have "m * ((- n) div m) \<le> - n" by linarith
  then show "n \<le> m * (- ((- n) div m))" by simp
  show "0 < - ((- n) div m)" if "0 < n"
    using that assms(1) by (simp add: div_neg_pos_less0)
qed

lemma make_batches_blocks:
  assumes "links \<noteq> []" "1 \<le> w"
  shows "make_batches w links =
           Inr (map (\<lambda>i. take (nat (batch_size w links)) (drop (i * nat (batch_size w links)) links))
                  [0..<nat (batch_count w links)])"
    and "0 < batch_size w links"
    and "0 < batch_count w links"
    and "int (length links) \<le> batch_count w links * batch_size w links"
proof -
  have n: "0 < int (length links)" using assms(1) by simp
  show m: "0 < batch_count w links"
    using assms(2) n by (simp add: batch_count_def)
  show b: "0 < batch_size w links"
    unfolding batch_size_def using ceil_cover(2)[OF m _ n] by simp
  show "int (length links) \<le> batch_count w links * batch_size w links"
    unfolding batch_size_def using ceil_cover(1)[OF m, of "int (length links)"] by simp
  have idx: "[0..batch_count w links - 1] = map int [0..<nat (batch_count w links)]"
    using upto_as_upt[of "nat (batch_count w links)"] m by simp
  have blk: "py_slice links (int i * batch_size w links) ((int i + 1) * batch_size w links)
               = take (nat (batch_size w links)) (drop (i * nat (batch_size w links)) links)" for i
    using py_slice_block[of links i "nat (batch_size w links)"] b by simp
  show "make_batches w links =
           Inr (map (\<lambda>i. take (nat (batch_size w links)) (drop (i * nat (batch_size w links)) links))
                  [0..<nat (batch_count w links)])"
    unfolding make_batches_def idx using m by (simp add: blk o_def)
qed

lemma blocks_nonempty:
  assumes "0 < b"
  shows "filter (\<lambda>ys. ys \<noteq> []) (map (\<lambda>i. take b (drop (i * b) xs)) [0..<m])
           = map (\<lambda>i. take b (drop (i * b) xs)) [0..<length (filter (\<lambda>i. i * b < length xs) [0..<m])]"
proof -
  have ne: "(take b (drop (i * b) xs) \<noteq> []) = (i * b < length xs)" for i
    using assms by auto
  have "filter (\<lambda>ys. ys \<noteq> []) (map (\<lambda>i. take b (drop (i * b) xs)) [0..<m])
          = map (\<lambda>i. take b (drop (i * b) xs)) (filter (\<lambda>i. i * b < length xs) [0..<m])"
    by (simp only: filter_map o_def ne)
  also have "filter (\<lambda>i. i * b < length xs) [0..<m]
               = [0..<length (filter (\<lambda>i. i * b < length xs) [0..<m])]"
  proof (rule filter_downward)
    fix i j :: nat
    assume "i \<le> j" "j * b < length xs"
    moreover from \<open>i \<le> j\<close> have "i * b \<le> j * b" by simp
    ultimately show "i * b < length xs" by linarith
  qed
  finally show ?thesis .
qed

lemma blocks_sizes:
  assumes "0 < b" "j < length (filter (\<lambda>i. i * b < length xs) [0..<m])"
  shows "take b (drop (j * b) xs) \<noteq> []"
    and "length (take b (drop (j * b) xs)) \<le> b"
    and "j + 1 < length (filter (\<lambda>i. i * b < length xs) [0..<m])
           \<Longrightarrow> length (take b (drop (j * b) xs)) = b"
proof -
  let ?k = "length (filter (\<lambda>i. i * b < length xs) [0..<m])"
  have dc: "filter (\<lambda>i. i * b < length xs) [0..<m] = [0..<?k]"
  proof (rule filter_downward)
    fix i j :: nat
    assume "i \<le> j" "j * b < length xs"
    moreover from \<open>i \<le> j\<close> have "i * b \<le> j * b" by simp
    ultimately show "i * b < length xs" by linarith
  qed
  have inb: "i * b < length xs" if "i < ?k" for i
  proof -
    from that have "i \<in> set [0..<?k]" by simp
    with dc have "i \<in> set (filter (\<lambda>i. i * b < length xs) [0..<m])" by simp
    then show ?thesis by simp
  qed
  from inb[OF assms(2)] assms(1) show "take b (drop (j * b) xs) \<noteq> []" by simp
  show "length (take b (drop (j * b) xs)) \<le> b" by simp
  show "length (take b (drop (j * b) xs)) = b" if "j + 1 < ?k"
  proof -
    from inb[OF that] have "j * b + b < length xs" by (simp add: algebra_simps)
    then show ?thesis by simp
  qed
qed

text \<open>
  C6: for a non-empty list of links and a requested worker count of at least 1, the
  batches exist, \<open>workers = min(W, N)\<close>, the batch size is the ceiling of \<open>N / workers\<close>,
  there is one slice per worker, slice \<open>i\<close> is the block of \<open>batch_size\<close> links from
  position \<open>i * batch_size\<close>, the slices concatenated are the links, the jobs given to the
  pool are exactly the non-empty slices and still cover the links in order, every job is
  non-empty and at most \<open>batch_size\<close> long, every job but the last is exactly
  \<open>batch_size\<close> long, and 10 links for 3 workers give the sizes 4, 4, 2.
\<close>

theorem partition_covers_links:
  assumes "links \<noteq> []" and "1 \<le> w"
  shows "\<exists>batches.
           make_batches w links = Inr batches
         \<and> batch_count w links = min w (int (length links))
         \<and> batch_size w links = \<lceil>real (length links) / real_of_int (batch_count w links)\<rceil>
         \<and> int (length batches) = batch_count w links
         \<and> (\<forall>i < length batches.
               batches ! i = take (nat (batch_size w links)) (drop (i * nat (batch_size w links)) links))
         \<and> concat batches = links
         \<and> map snd (dispatch batches) = filter (\<lambda>batch. batch \<noteq> []) batches
         \<and> concat (map snd (dispatch batches)) = links
         \<and> (\<forall>j < length (dispatch batches).
               snd (dispatch batches ! j) \<noteq> []
             \<and> int (length (snd (dispatch batches ! j))) \<le> batch_size w links
             \<and> (j + 1 < length (dispatch batches)
                  \<longrightarrow> int (length (snd (dispatch batches ! j))) = batch_size w links))
         \<and> (length links = 10 \<and> w = 3
               \<longrightarrow> map (\<lambda>job. length (snd job)) (dispatch batches) = [4, 4, 2])"
proof -
  define b where "b = nat (batch_size w links)"
  define m where "m = nat (batch_count w links)"
  define batches where "batches = map (\<lambda>i. take b (drop (i * b) links)) [0..<m]"
  define k where "k = length (filter (\<lambda>i. i * b < length links) [0..<m])"
  note mb = make_batches_blocks[OF assms]
  have bpos: "0 < b" and ib: "int b = batch_size w links"
    using mb(2) by (simp_all add: b_def)
  have im: "int m = batch_count w links" using mb(3) by (simp add: m_def)
  have "int (length links) \<le> int (m * b)" using mb(4) im ib by simp
  then have cover: "length links \<le> m * b" by linarith
  have made: "make_batches w links = Inr batches"
    using mb(1) by (simp add: batches_def b_def m_def)
  have cnt: "batch_count w links = min w (int (length links))"
    by (simp add: batch_count_def)
  have sz: "batch_size w links = \<lceil>real (length links) / real_of_int (batch_count w links)\<rceil>"
    unfolding batch_size_def
    using ceiling_divide_eq_div[where ?'a = real, of "int (length links)" "batch_count w links"]
    by simp
  have len: "int (length batches) = batch_count w links"
    by (simp add: batches_def im)
  have nth: "\<forall>i < length batches.
               batches ! i = take (nat (batch_size w links)) (drop (i * nat (batch_size w links)) links)"
    by (simp add: batches_def b_def)
  have cat: "concat batches = links"
    unfolding batches_def concat_blocks using cover by simp
  have disp: "map snd (dispatch batches) = filter (\<lambda>batch. batch \<noteq> []) batches"
    by (rule dispatch_batches)
  have "concat (filter (\<lambda>batch. batch \<noteq> []) batches) = concat batches"
    by (induction batches) auto
  with disp cat have dcat: "concat (map snd (dispatch batches)) = links" by simp
  have ne: "map snd (dispatch batches) = map (\<lambda>i. take b (drop (i * b) links)) [0..<k]"
    using blocks_nonempty[OF bpos, of links m] disp by (simp add: batches_def k_def)
  then have "length (map snd (dispatch batches)) = k" by simp
  then have dlen: "length (dispatch batches) = k" by simp
  have dnth: "snd (dispatch batches ! j) = take b (drop (j * b) links)" if "j < k" for j
  proof -
    from that dlen have "snd (dispatch batches ! j) = map snd (dispatch batches) ! j" by simp
    also have "\<dots> = take b (drop (j * b) links)" unfolding ne using that by simp
    finally show ?thesis .
  qed
  have sizes: "\<forall>j < length (dispatch batches).
               snd (dispatch batches ! j) \<noteq> []
             \<and> int (length (snd (dispatch batches ! j))) \<le> batch_size w links
             \<and> (j + 1 < length (dispatch batches)
                  \<longrightarrow> int (length (snd (dispatch batches ! j))) = batch_size w links)"
  proof (intro allI impI)
    fix j assume "j < length (dispatch batches)"
    then have jk: "j < k" using dlen by simp
    then have jk': "j < length (filter (\<lambda>i. i * b < length links) [0..<m])" by (simp add: k_def)
    note bs = blocks_sizes[OF bpos jk']
    have "length (take b (drop (j * b) links)) = b" if "j + 1 < length (dispatch batches)"
      using that bs(3) dlen k_def by simp
    with bs(1,2) show "snd (dispatch batches ! j) \<noteq> []
             \<and> int (length (snd (dispatch batches ! j))) \<le> batch_size w links
             \<and> (j + 1 < length (dispatch batches)
                  \<longrightarrow> int (length (snd (dispatch batches ! j))) = batch_size w links)"
      unfolding dnth[OF jk] ib[symmetric] by simp
  qed
  have ten: "map (\<lambda>job. length (snd job)) (dispatch batches) = [4, 4, 2]"
    if "length links = 10 \<and> w = 3"
  proof -
    from that have l: "length links = 10" and w: "w = 3" by simp_all
    have "batch_count w links = 3" by (simp add: batch_count_def l w)
    then have m3: "m = 3" by (simp add: m_def)
    have "batch_size w links = 4" by (simp add: batch_size_def batch_count_def l w)
    then have b4: "b = 4" by (simp add: b_def)
    have u3: "[0..<3] = [0, 1, 2::nat]" by (simp add: upt_rec)
    have bl: "batches = [take 4 links, take 4 (drop 4 links), take 4 (drop 8 links)]"
      unfolding batches_def m3 b4 u3 by simp
    have "map length (filter (\<lambda>batch. batch \<noteq> []) batches) = [4, 4, 2]"
      unfolding bl using l assms(1) by simp
    with disp have "map length (map snd (dispatch batches)) = [4, 4, 2]" by simp
    then show ?thesis by (simp add: o_def)
  qed
  have ten': "length links = 10 \<and> w = 3
               \<longrightarrow> map (\<lambda>job. length (snd job)) (dispatch batches) = [4, 4, 2]"
    using ten by (rule impI)
  show ?thesis
    by (rule exI[of _ batches]) (intro conjI made cnt sz len nth cat disp dcat sizes ten')

qed

theorem partition_covers_links_witness:
  "ten_links \<noteq> [] \<and> (1::int) \<le> 3 \<and> length ten_links = 10
   \<and> make_batches 3 ten_links
        = Inr [[''a'', ''b'', ''c'', ''d''], [''e'', ''f'', ''g'', ''h''], [''i'', ''j'']]
   \<and> map (\<lambda>job. length (snd job))
        (dispatch [[''a'', ''b'', ''c'', ''d''], [''e'', ''f'', ''g'', ''h''], [''i'', ''j'']])
        = [4, 4, 2]"
proof -
  let ?B = "[[''a'', ''b'', ''c'', ''d''], [''e'', ''f'', ''g'', ''h''], [''i'', ''j'']]"
  have ne: "ten_links \<noteq> []" by (simp add: ten_links_def)
  have w: "(1::int) \<le> 3" by simp
  have l: "length ten_links = 10" by (simp add: ten_links_def)
  have ev: "make_batches 3 ten_links = Inr ?B"
    unfolding ten_links_def by code_simp
  have "\<exists>batches. make_batches 3 ten_links = Inr batches
          \<and> (length ten_links = 10 \<and> (3::int) = 3
               \<longrightarrow> map (\<lambda>job. length (snd job)) (dispatch batches) = [4, 4, 2])"
    using partition_covers_links[OF ne w]
    apply -
    apply (erule exE)
    apply (erule conjE)+
    apply (rule exI)
    apply (rule conjI)
     apply assumption
    apply assumption
    done
  then obtain batches where
    mb: "make_batches 3 ten_links = Inr batches"
    and sz: "length ten_links = 10 \<and> (3::int) = 3
               \<longrightarrow> map (\<lambda>job. length (snd job)) (dispatch batches) = [4, 4, 2]"
    by (elim exE conjE)
  from mb have "Inr batches = (Inr ?B :: py_error + string list list)"
    by (simp only: ev)
  then have b: "batches = ?B" by (simp only: sum.inject)
  have "length ten_links = 10 \<and> (3::int) = 3" using l by simp
  with sz have "map (\<lambda>job. length (snd job)) (dispatch batches) = [4, 4, 2]"
    by (rule mp)
  then have d: "map (\<lambda>job. length (snd job)) (dispatch ?B) = [4, 4, 2]"
    by (simp only: b)
  show ?thesis by (intro conjI ne w l ev d)
qed

section \<open>Properties of the pagination traversal\<close>










section \<open>Properties of the extraction pipeline\<close>








text \<open>A raising \<open>driver.page_source\<close> is caught by the same handler as a raising navigation.\<close>

lemma process_link_source_error:
  "get b w link = (None, w1) \<Longrightarrow> page_source b w1 = Inl e \<Longrightarrow>
   v_status (fst (process_link b w min_year city_filter worker_id idx tot link)) = ''error''"
  by (simp add: process_link_def classify_def Let_def)




section \<open>Properties of the audit log\<close>





section \<open>Properties of the result sink\<close>

lemma write_rows_closed:
  "h_closed h \<Longrightarrow> rs \<noteq> [] \<Longrightarrow>
   write_rows fl h rs = Inl (ValueError ''I/O operation on closed file.'')"
  by (cases rs) (simp_all add: writerow_def)

text \<open>Whatever the rows are, \<open>write_results\<close> writes none of them: it leaves an existing
  file as it is and gives a new file the header only.\<close>

lemma write_results_no_rows:
  "write_results fl out rs =
     (if rs = [] \<or> fl out \<noteq> None then fl else fl(out \<mapsto> [result_header]))"
proof (cases "rs = []")
  case True
  then show ?thesis by (simp add: write_results_def)
next
  case False
  show ?thesis
  proof (cases "fl out")
    case None
    with False show ?thesis
      by (simp add: write_results_def open_file_def Let_def writerow_def write_rows_closed)
  next
    case (Some rows)
    with False show ?thesis
      by (simp add: write_results_def open_file_def Let_def write_rows_closed)
  qed
qed

text \<open>
  C1, at a batch of one link that is saved: the visit has status \<open>saved\<close>, the dedup pass
  keeps its tuple, and after \<open>process_link_batch\<close> the result file, which held the header
  before, still holds the header and nothing else.
\<close>

theorem saved_row_not_written:
  "v_status (fst (process_link site [] 2023 ''Seattle'' 1 1 1 ''https://example.com/new'')) = ''saved''
   \<and> dedupe reject_brackets {}
        [(''Pine Lofts'', ''1 Pine St, SEATTLE, WA'', 2024, ''https://example.com/new'')]
        = [(''Pine Lofts'', ''1 Pine St, SEATTLE, WA'', 2024, ''https://example.com/new'')]
   \<and> process_link_batch reject_brackets site [] [''results.csv'' \<mapsto> [result_header]]
        [''https://example.com/new''] 2023 ''Seattle'' ''results.csv'' 1 ''results.csv''
        = Some [result_header]"
  by code_simp

section \<open>Properties of \<open>main\<close>\<close>

text \<open>
  C3, as the code has it: when the traversal yields no link, \<open>main\<close> returns at once: no job
  is given to a worker, no exception is raised, and the files are what they were before the
  run; in particular a result file that did not exist is not created.
\<close>

theorem main_without_links:
  "collect_listing_links chk b (MAX_LISTINGS cfg) master SEARCH_URL None 50 = Inr [] \<Longrightarrow>
   main chk b master fresh cfg fl = \<lparr>r_files = fl, r_jobs = [], r_failure = None\<rparr>"
  by (simp add: main_def)

theorem main_without_links_witness:
  "collect_listing_links reject_brackets site (MAX_LISTINGS default_config) [] SEARCH_URL None 50
     = Inr []
   \<and> main reject_brackets site [] (\<lambda>i. []) default_config Map.empty
       = \<lparr>r_files = Map.empty, r_jobs = [], r_failure = None\<rparr>"
proof -
  have c: "collect_listing_links reject_brackets site (MAX_LISTINGS default_config) [] SEARCH_URL None 50
             = Inr []"
    by code_simp
  from main_without_links[OF c] c show ?thesis by blast
qed

text \<open>C3 as stated fails: after a run whose traversal yields no link, on a file system
  without result file, the result file does not exist.\<close>

theorem main_without_links_counterexample:
  "collect_listing_links reject_brackets site (MAX_LISTINGS default_config) [] SEARCH_URL None 50
     = Inr []
   \<and> r_files (main reject_brackets site [] (\<lambda>i. []) default_config Map.empty)
       (OUTPUT_CSV default_config) = None"
  by code_simp

section \<open>\<open>normalize_url\<close> on canonical URLs\<close>


lemma alpha_scheme_char: "is_alpha c \<Longrightarrow> c \<in> set scheme_chars"
  by (auto simp: is_alpha_def scheme_chars_def)



















end
